theory Spec2Isabelle
  imports Main
begin

section \<open>Values exchanged with the collaborating libraries\<close>

text \<open>
  The wallet object of \<^verbatim>\<open>WebWallet\<close> delegates every hard operation to the ethers
  library and to the network behind it. Their answers are not computed by this
  repository, so they are parameters of the model (the record \<open>ethers\<close> below): each
  operation takes the collaborator and the session state, and returns the result of the
  call (\<open>Inl\<close> for a thrown exception or a rejected promise, \<open>Inr\<close> for a returned or
  resolved value), the session state after the call, and the list of requests it
  awaited from the collaborator, in order.

  The definition of a method gives the outcome of one call that no other call
  overlaps. A method that is \<^verbatim>\<open>async\<close> runs up to its first \<^verbatim>\<open>await\<close> when it is
  called and finishes later; the calls that may start in between are the subject of the
  section on overlapping calls, which cuts the methods at their \<^verbatim>\<open>await\<close>.
\<close>

datatype error = Error string | TypeError string

datatype provider = Provider string

record signer =
  address :: string
  privateKey :: string
  mnemonic :: string
  signer_provider :: "provider option"

text \<open>The argument of the constructor is an arbitrary JavaScript value: a falsy value,
  a value that is not a signer, or a signer.\<close>

datatype jsvalue = Falsy | NotSigner | IsSigner signer

text \<open>\<^verbatim>\<open>new ethers.Contract(address, ERC20_ABI, signer)\<close>: a handle bound to a contract
  address and a signer.\<close>

record contract_handle =
  contract_address :: string
  contract_signer :: signer

record token =
  symbol :: string
  token_address :: string
  decimals :: nat
  oneToken :: nat
  contract :: contract_handle

text \<open>A decoded \<^verbatim>\<open>Transfer(address indexed from, address indexed to, uint256 amount)\<close>
  event; \<open>args\<close> is the positional view \<^verbatim>\<open>data.args\<close> of its three arguments.\<close>

record transfer_event =
  ev_transactionHash :: string
  ev_from :: string
  ev_to :: string
  ev_amount :: nat

datatype arg = AddressArg string | UintArg nat

definition args :: "transfer_event \<Rightarrow> arg list" where
  "args e = [AddressArg (ev_from e), AddressArg (ev_to e), UintArg (ev_amount e)]"

text \<open>A transaction as the block explorer lists it; \<open>etx_to\<close> is \<open>None\<close> (null) for a
  contract creation.\<close>

record explorer_tx =
  etx_hash :: string
  etx_from :: string
  etx_to :: "string option"
  etx_value :: nat
  etx_timestamp :: nat

datatype blocktag = BlockNumber nat | BlockTag string

record tx_request =
  tx_nonce :: nat
  tx_to :: string
  tx_value :: int
  tx_gasPrice :: string

record overrides =
  ov_gasPrice :: string
  ov_nonce :: nat

datatype tx_handle = TxHandle string

record ether_history_entry =
  eh_transactionHash :: string
  eh_status :: string
  eh_from :: string
  eh_to :: "string option"
  eh_amount :: string
  eh_timestamp :: nat

record token_history_entry =
  th_transactionHash :: string
  th_status :: string
  th_from :: string
  th_to :: string
  th_amount :: string

text \<open>The requests a method awaits from its collaborators. How a collaborator answers
  is not fixed by this repository: the answer to \<^verbatim>\<open>contract.decimals()\<close>, for one, may
  be a number or a failure (the \<^verbatim>\<open>ERC20_ABI\<close> of the source lists \<^verbatim>\<open>balanceOf\<close>,
  \<^verbatim>\<open>transfer\<close> and the \<^verbatim>\<open>Transfer\<close> event only), and both are answers of the model.\<close>

datatype call =
    Encrypt signer string
  | FromEncryptedJson string string
  | Decimals contract_handle
  | BalanceOf contract_handle string
  | QueryFilter contract_handle string
  | Transfer contract_handle string string overrides
  | GetTransactionCount signer
  | GetBalance signer
  | SendTransaction signer tx_request
  | GetHistory string string blocktag blocktag

fun is_network_call :: "call \<Rightarrow> bool" where
  "is_network_call (Encrypt _ _) = False"
| "is_network_call (FromEncryptedJson _ _) = False"
| "is_network_call _ = True"

record ethers =
  getDefaultProvider :: "string \<Rightarrow> error + provider"
  encrypt :: "signer \<Rightarrow> string \<Rightarrow> error + string"
  fromEncryptedJson :: "string \<Rightarrow> string \<Rightarrow> error + signer"
  contract_decimals :: "contract_handle \<Rightarrow> error + nat"
  contract_balanceOf :: "contract_handle \<Rightarrow> string \<Rightarrow> error + nat"
  contract_queryFilter :: "contract_handle \<Rightarrow> string \<Rightarrow> error + transfer_event list"
  contract_transfer :: "contract_handle \<Rightarrow> string \<Rightarrow> string \<Rightarrow> overrides \<Rightarrow> error + tx_handle"
  getTransactionCount :: "signer \<Rightarrow> error + nat"
  getBalance :: "signer \<Rightarrow> error + nat"
  sendTransaction :: "signer \<Rightarrow> tx_request \<Rightarrow> error + tx_handle"
  getHistory :: "string \<Rightarrow> string \<Rightarrow> blocktag \<Rightarrow> blocktag \<Rightarrow> error + explorer_tx list"
  utils_getAddress :: "string \<Rightarrow> error + string"
  parseEther :: "string \<Rightarrow> error + int"
  parseUnits :: "string \<Rightarrow> string \<Rightarrow> error + int"
  formatEther :: "nat \<Rightarrow> string"
  toHexString :: "int \<Rightarrow> string"
  bigNumber_from :: "string \<Rightarrow> error + int"

subsection \<open>Arithmetic of \<^verbatim>\<open>BigNumber\<close>\<close>

text \<open>\<^verbatim>\<open>a.div(b)\<close> is integer division and refuses a zero divisor; \<^verbatim>\<open>toNumber()\<close>
  refuses a value that does not fit the 53 bits of a JavaScript number;
  \<^verbatim>\<open>toString()\<close> writes the value in decimal.\<close>

definition bn_div :: "nat \<Rightarrow> nat \<Rightarrow> error + nat" where
  "bn_div a b = (if b = 0 then Inl (Error ''division-by-zero'') else Inr (a div b))"

definition toNumber :: "nat \<Rightarrow> error + nat" where
  "toNumber a = (if a < 2 ^ 53 then Inr a else Inl (Error ''overflow''))"

fun nat_toString :: "nat \<Rightarrow> string" where
  "nat_toString n =
     (if n < 10 then [''0123456789'' ! n]
      else nat_toString (n div 10) @ [''0123456789'' ! (n mod 10)])"

declare nat_toString.simps [simp del]

definition toString :: "int \<Rightarrow> string" where
  "toString i = (if i < 0 then CHR ''-'' # nat_toString (nat (- i)) else nat_toString (nat i))"

section \<open>The session state of \<^verbatim>\<open>WebWallet\<close>\<close>

record session =
  wallet :: "signer option"
  isLocked :: bool
  tokens :: "token list"
  provider :: "provider option"
  transactionNonce :: "nat option"
  network :: string
  encryptedJsonWallet :: string

type_synonym 'a outcome = "(error + 'a) \<times> session \<times> call list"

definition locked_error :: error where
  "locked_error = Error ''Wallet is locked!''"

definition null_error :: error where
  "null_error = TypeError ''Cannot read properties of null''"

definition initWallet :: "jsvalue \<Rightarrow> session \<Rightarrow> error + session" where
  "initWallet v s =
     (case v of
        IsSigner w \<Rightarrow> Inr (s\<lparr>wallet := Some w, isLocked := False\<rparr>)
      | _ \<Rightarrow> Inl (Error ''Signer cannot be empty! Signer should be an instance of ethers.Signer!''))"

definition WebWallet :: "jsvalue \<Rightarrow> string option \<Rightarrow> error + session" where
  "WebWallet v encrypted =
     initWallet v
       \<lparr>wallet = None, isLocked = True, tokens = [], provider = None,
        transactionNonce = None, network = [],
        encryptedJsonWallet = (case encrypted of None \<Rightarrow> [] | Some j \<Rightarrow> j)\<rparr>"

definition createERC20TokenContract :: "signer option \<Rightarrow> string \<Rightarrow> error + contract_handle" where
  "createERC20TokenContract sg a =
     (case sg of
        None \<Rightarrow> Inl (Error ''There is no signer or network provider!'')
      | Some w \<Rightarrow>
          (if signer_provider w = None then Inl (Error ''There is no signer or network provider!'')
           else Inr \<lparr>contract_address = a, contract_signer = w\<rparr>))"

definition connect :: "ethers \<Rightarrow> string option \<Rightarrow> session \<Rightarrow> unit outcome" where
  "connect env network_arg s =
     (let net = (case network_arg of None \<Rightarrow> ''homestead'' | Some n \<Rightarrow> n) in
      case wallet s of
        None \<Rightarrow>
          (Inl (Error ''Wallet is null! You cannot connect to the network without a wallet!''), s, [])
      | Some w \<Rightarrow>
          (case getDefaultProvider env net of
             Inl e \<Rightarrow> (Inl e, s, [])
           | Inr p \<Rightarrow>
               (Inr (),
                s\<lparr>provider := Some p, network := net,
                  wallet := Some (w\<lparr>signer_provider := Some p\<rparr>)\<rparr>, [])))"

definition addToken :: "ethers \<Rightarrow> string \<Rightarrow> string \<Rightarrow> session \<Rightarrow> unit outcome" where
  "addToken env symb a s =
     (if isLocked s then (Inl locked_error, s, [])
      else if find (\<lambda>t. token_address t = a) (tokens s) \<noteq> None then (Inr (), s, [])
      else
        (case createERC20TokenContract (wallet s) a of
           Inl e \<Rightarrow> (Inl e, s, [])
         | Inr c \<Rightarrow>
             (case contract_decimals env c of
                Inl e \<Rightarrow> (Inl e, s, [Decimals c])
              | Inr d \<Rightarrow>
                  (Inr (),
                   s\<lparr>tokens := tokens s @
                       [\<lparr>symbol = symb, token_address = a, decimals = d,
                         oneToken = 10 ^ d, contract = c\<rparr>]\<rparr>,
                   [Decimals c]))))"

definition lock :: "ethers \<Rightarrow> string \<Rightarrow> session \<Rightarrow> string outcome" where
  "lock env password s =
     (if encryptedJsonWallet s = [] then
        (case wallet s of
           None \<Rightarrow> (Inl null_error, s, [])
         | Some w \<Rightarrow>
             (case encrypt env w password of
                Inl e \<Rightarrow> (Inl e, s, [Encrypt w password])
              | Inr j \<Rightarrow>
                  (Inr j,
                   s\<lparr>encryptedJsonWallet := j, wallet := None, isLocked := True,
                     provider := None, tokens := [], network := []\<rparr>,
                   [Encrypt w password])))
      else
        (Inr (encryptedJsonWallet s),
         s\<lparr>wallet := None, isLocked := True, provider := None, tokens := [], network := []\<rparr>,
         []))"

definition unlock :: "ethers \<Rightarrow> string \<Rightarrow> session \<Rightarrow> unit outcome" where
  "unlock env password s =
     (case fromEncryptedJson env (encryptedJsonWallet s) password of
        Inl e \<Rightarrow> (Inl e, s, [FromEncryptedJson (encryptedJsonWallet s) password])
      | Inr w \<Rightarrow>
          (case initWallet (IsSigner w) s of
             Inl e \<Rightarrow> (Inl e, s, [FromEncryptedJson (encryptedJsonWallet s) password])
           | Inr s' \<Rightarrow> (Inr (), s', [FromEncryptedJson (encryptedJsonWallet s) password])))"

definition isLocked_method :: "session \<Rightarrow> bool outcome" where
  "isLocked_method s = (Inr (isLocked s), s, [])"

definition setNonce :: "ethers \<Rightarrow> session \<Rightarrow> unit outcome" where
  "setNonce env s =
     (case wallet s of
        None \<Rightarrow> (Inl null_error, s, [])
      | Some w \<Rightarrow>
          (case getTransactionCount env w of
             Inl e \<Rightarrow> (Inl e, s, [GetTransactionCount w])
           | Inr n \<Rightarrow> (Inr (), s\<lparr>transactionNonce := Some n\<rparr>, [GetTransactionCount w])))"

definition getAddress :: "session \<Rightarrow> string outcome" where
  "getAddress s =
     (if isLocked s then (Inl locked_error, s, [])
      else case wallet s of
             None \<Rightarrow> (Inl null_error, s, [])
           | Some w \<Rightarrow> (Inr (address w), s, []))"

definition getProvider :: "session \<Rightarrow> provider option outcome" where
  "getProvider s = (Inr (provider s), s, [])"

definition getNetwork :: "session \<Rightarrow> string outcome" where
  "getNetwork s = (Inr (network s), s, [])"

definition getPrivateKey :: "session \<Rightarrow> string outcome" where
  "getPrivateKey s =
     (if isLocked s then (Inl locked_error, s, [])
      else case wallet s of
             None \<Rightarrow> (Inl null_error, s, [])
           | Some w \<Rightarrow> (Inr (privateKey w), s, []))"

definition getMnemonics :: "session \<Rightarrow> string outcome" where
  "getMnemonics s =
     (if isLocked s then (Inl locked_error, s, [])
      else case wallet s of
             None \<Rightarrow> (Inl null_error, s, [])
           | Some w \<Rightarrow> (Inr (mnemonic w), s, []))"

definition getEtherBalance :: "ethers \<Rightarrow> session \<Rightarrow> string outcome" where
  "getEtherBalance env s =
     (if isLocked s then (Inl locked_error, s, [])
      else case wallet s of
             None \<Rightarrow> (Inl null_error, s, [])
           | Some w \<Rightarrow>
               (case getBalance env w of
                  Inl e \<Rightarrow> (Inl e, s, [GetBalance w])
                | Inr wei \<Rightarrow> (Inr (formatEther env wei), s, [GetBalance w])))"

definition getTokenBalance :: "ethers \<Rightarrow> string \<Rightarrow> session \<Rightarrow> nat outcome" where
  "getTokenBalance env tokenAddress s =
     (if isLocked s then (Inl locked_error, s, [])
      else case find (\<lambda>t. token_address t = tokenAddress) (tokens s) of
             None \<Rightarrow> (Inl (Error ''Token does now exist!''), s, [])
           | Some t \<Rightarrow>
               (case wallet s of
                  None \<Rightarrow> (Inl null_error, s, [])
                | Some w \<Rightarrow>
                    (case contract_balanceOf env (contract t) (address w) of
                       Inl e \<Rightarrow> (Inl e, s, [BalanceOf (contract t) (address w)])
                     | Inr balance \<Rightarrow>
                         (case bn_div balance (oneToken t) of
                            Inl e \<Rightarrow> (Inl e, s, [BalanceOf (contract t) (address w)])
                          | Inr q \<Rightarrow> (toNumber q, s, [BalanceOf (contract t) (address w)])))))"

definition ether_status :: "string \<Rightarrow> explorer_tx \<Rightarrow> string" where
  "ether_status a d =
     (if etx_from d = a \<and> etx_to d = Some a then ''SELF''
      else if etx_from d = a then ''OUT'' else ''IN'')"

definition getEtherHistory ::
  "ethers \<Rightarrow> string option \<Rightarrow> string option \<Rightarrow> blocktag option \<Rightarrow> blocktag option \<Rightarrow>
   session \<Rightarrow> ether_history_entry list outcome" where
  "getEtherHistory env network_arg address_arg start_arg end_arg s =
     (let net = (case network_arg of None \<Rightarrow> network s | Some n \<Rightarrow> n) in
      case (case address_arg of
              None \<Rightarrow> (case wallet s of None \<Rightarrow> Inl null_error | Some w \<Rightarrow> Inr (address w))
            | Some a \<Rightarrow> Inr a) of
        Inl e \<Rightarrow> (Inl e, s, [])
      | Inr a \<Rightarrow>
          (let start = (case start_arg of None \<Rightarrow> BlockNumber 0 | Some b \<Rightarrow> b);
               end = (case end_arg of None \<Rightarrow> BlockTag ''latest'' | Some b \<Rightarrow> b) in
           case getHistory env net a start end of
             Inl e \<Rightarrow> (Inl e, s, [GetHistory net a start end])
           | Inr historyList \<Rightarrow>
               (Inr (map (\<lambda>d. \<lparr>eh_transactionHash = etx_hash d,
                                eh_status = ether_status a d,
                                eh_from = etx_from d, eh_to = etx_to d,
                                eh_amount = formatEther env (etx_value d),
                                eh_timestamp = etx_timestamp d\<rparr>) historyList),
                s, [GetHistory net a start end])))"

definition token_status :: "string \<Rightarrow> transfer_event \<Rightarrow> string" where
  "token_status a d =
     (if ev_from d = a \<and> ev_to d = a then ''SELF''
      else if ev_from d = a then ''OUT'' else ''IN'')"

definition involves :: "string \<Rightarrow> transfer_event \<Rightarrow> bool" where
  "involves a d = list_ex (\<lambda>x. x = AddressArg a) (args d)"

definition token_entry :: "string \<Rightarrow> transfer_event \<Rightarrow> token_history_entry" where
  "token_entry a d =
     \<lparr>th_transactionHash = ev_transactionHash d, th_status = token_status a d,
      th_from = ev_from d, th_to = ev_to d,
      th_amount = nat_toString (ev_amount d div 10 ^ 18)\<rparr>"

definition getTokenHistory :: "ethers \<Rightarrow> string \<Rightarrow> session \<Rightarrow> token_history_entry list outcome" where
  "getTokenHistory env tokenAddress s =
     (if isLocked s then (Inl locked_error, s, [])
      else case find (\<lambda>t. token_address t = tokenAddress) (tokens s) of
             None \<Rightarrow> (Inl (Error ''Token does now exist!''), s, [])
           | Some t \<Rightarrow>
               (case contract_queryFilter env (contract t) ''Transfer'' of
                  Inl e \<Rightarrow> (Inl e, s, [QueryFilter (contract t) ''Transfer''])
                | Inr historyList \<Rightarrow>
                    (case wallet s of
                       None \<Rightarrow>
                         ((if historyList = [] then Inr [] else Inl null_error), s,
                          [QueryFilter (contract t) ''Transfer''])
                     | Some w \<Rightarrow>
                         (Inr (map (token_entry (address w))
                                 (filter (involves (address w)) historyList)),
                          s, [QueryFilter (contract t) ''Transfer'']))))"

text \<open>\<^verbatim>\<open>this.transactionNonce++\<close>: the value used is the counter before the increment,
  with \<^verbatim>\<open>null\<close> read as 0. The counter is a JavaScript number, a double: adding 1 is
  exact below \<open>2 ^ 53\<close>; from there on the sum is rounded to the nearest double, to the
  one with the even significand on a tie, so that \<open>2 ^ 53\<close> stays \<open>2 ^ 53\<close>.
  \<open>number_increment\<close> is that sum for every non-negative integer that is a double.\<close>

definition nonce_value :: "session \<Rightarrow> nat" where
  "nonce_value s = (case transactionNonce s of None \<Rightarrow> 0 | Some n \<Rightarrow> n)"

definition number_increment :: "nat \<Rightarrow> nat" where
  "number_increment n =
     (if n < 2 ^ 53 then n + 1
      else if n < 2 ^ 54 \<and> odd (n div 2) then n + 2
      else n)"

definition nonce_increment :: "session \<Rightarrow> session" where
  "nonce_increment s = s\<lparr>transactionNonce := Some (number_increment (nonce_value s))\<rparr>"

definition sendEther ::
  "ethers \<Rightarrow> string \<Rightarrow> string \<Rightarrow> string \<Rightarrow> string option \<Rightarrow> session \<Rightarrow> tx_handle outcome" where
  "sendEther env to amount gas transactionSpeed s =
     (case utils_getAddress env to of
        Inl e \<Rightarrow> (Inl (Error ''Invalid Ethereum address''), s, [])
      | Inr checked \<Rightarrow>
          (case wallet s of
             None \<Rightarrow> (Inl null_error, s, [])
           | Some w \<Rightarrow>
               (case parseEther env amount of
                  Inl e \<Rightarrow> (Inl e, nonce_increment s, [])
                | Inr v \<Rightarrow>
                    (case parseUnits env gas ''gwei'' of
                       Inl e \<Rightarrow> (Inl e, nonce_increment s, [])
                     | Inr g \<Rightarrow>
                         (let request = \<lparr>tx_nonce = nonce_value s, tx_to = to, tx_value = v,
                                         tx_gasPrice = toHexString env g\<rparr> in
                          (sendTransaction env w request, nonce_increment s,
                           [SendTransaction w request]))))))"

definition sendToken ::
  "ethers \<Rightarrow> string \<Rightarrow> string \<Rightarrow> string \<Rightarrow> string \<Rightarrow> string option \<Rightarrow> session \<Rightarrow>
   tx_handle outcome" where
  "sendToken env tokenAddress to amount gas transactionSpeed s =
     (if isLocked s then (Inl locked_error, s, [])
      else case find (\<lambda>t. token_address t = tokenAddress) (tokens s) of
             None \<Rightarrow> (Inl (Error ''Token does not exist!''), s, [])
           | Some t \<Rightarrow>
               (case utils_getAddress env to of
                  Inl e \<Rightarrow> (Inl (Error ''Invalid Ethereum address!''), s, [])
                | Inr checked \<Rightarrow>
                    (case bigNumber_from env amount of
                       Inl e \<Rightarrow> (Inl e, s, [])
                     | Inr a \<Rightarrow>
                         (case parseUnits env gas ''gwei'' of
                            Inl e \<Rightarrow> (Inl e, s, [])
                          | Inr g \<Rightarrow>
                              (let scaled = toString (a * int (oneToken t));
                                   ov = \<lparr>ov_gasPrice = toHexString env g,
                                         ov_nonce = nonce_value s\<rparr> in
                               (contract_transfer env (contract t) to scaled ov,
                                nonce_increment s,
                                [Transfer (contract t) to scaled ov]))))))"

definition removeToken :: "string \<Rightarrow> session \<Rightarrow> unit outcome" where
  "removeToken a s =
     (if isLocked s then (Inl locked_error, s, [])
      else if find (\<lambda>t. token_address t = a) (tokens s) = None then (Inr (), s, [])
      else (Inr (), s\<lparr>tokens := filter (\<lambda>t. token_address t \<noteq> a) (tokens s)\<rparr>, []))"

section \<open>Calls and reachable states\<close>

text \<open>The methods of the frozen object that \<^verbatim>\<open>WebWallet\<close> returns, with their arguments.\<close>

datatype operation =
    Connect "string option"
  | AddToken string string
  | SetNonce
  | Lock string
  | Unlock string
  | IsLocked
  | GetAddress
  | GetProvider
  | GetNetwork
  | GetMnemonics
  | GetPrivateKey
  | GetEtherBalance
  | GetTokenBalance string
  | GetEtherHistory "string option" "string option" "blocktag option" "blocktag option"
  | GetTokenHistory string
  | SendEther string string string "string option"
  | SendToken string string string string "string option"
  | RemoveToken string

definition state_of :: "'a outcome \<Rightarrow> session" where
  "state_of r = fst (snd r)"

definition calls_of :: "'a outcome \<Rightarrow> call list" where
  "calls_of r = snd (snd r)"

text \<open>The session state after one call that no other call overlaps.\<close>

fun exec :: "ethers \<Rightarrow> operation \<Rightarrow> session \<Rightarrow> session" where
  "exec env (Connect n) s = state_of (connect env n s)"
| "exec env (AddToken symb a) s = state_of (addToken env symb a s)"
| "exec env SetNonce s = state_of (setNonce env s)"
| "exec env (Lock p) s = state_of (lock env p s)"
| "exec env (Unlock p) s = state_of (unlock env p s)"
| "exec env IsLocked s = state_of (isLocked_method s)"
| "exec env GetAddress s = state_of (getAddress s)"
| "exec env GetProvider s = state_of (getProvider s)"
| "exec env GetNetwork s = state_of (getNetwork s)"
| "exec env GetMnemonics s = state_of (getMnemonics s)"
| "exec env GetPrivateKey s = state_of (getPrivateKey s)"
| "exec env GetEtherBalance s = state_of (getEtherBalance env s)"
| "exec env (GetTokenBalance a) s = state_of (getTokenBalance env a s)"
| "exec env (GetEtherHistory n a b e) s = state_of (getEtherHistory env n a b e s)"
| "exec env (GetTokenHistory a) s = state_of (getTokenHistory env a s)"
| "exec env (SendEther to amount gas sp) s = state_of (sendEther env to amount gas sp s)"
| "exec env (SendToken a to amount gas sp) s = state_of (sendToken env a to amount gas sp s)"
| "exec env (RemoveToken a) s = state_of (removeToken a s)"

subsection \<open>Overlapping calls\<close>

text \<open>
  Nothing in the wallet object keeps a caller from starting a call while an earlier one
  is still waiting for its answer. Four methods write to the session after their
  \<^verbatim>\<open>await\<close>: \<^verbatim>\<open>addToken\<close> pushes the token entry after \<^verbatim>\<open>contract.decimals()\<close>,
  \<^verbatim>\<open>lock\<close> stores the backup and clears the session after \<^verbatim>\<open>wallet.encrypt\<close> (when
  it encrypts at all), \<^verbatim>\<open>unlock\<close> installs the signer after
  \<^verbatim>\<open>Wallet.fromEncryptedJson\<close>, and \<^verbatim>\<open>setNonce\<close> stores the count after
  \<^verbatim>\<open>getTransactionCount\<close>. Every other method does its writes, if any, before its first
  \<^verbatim>\<open>await\<close>.

  A \<open>continuation\<close> is what such a call still has to write once its answer is there;
  \<open>resume\<close> performs it on the session as it is by then. \<open>start\<close> is the part of a
  call up to its \<^verbatim>\<open>await\<close>: the session it leaves, and the continuation, if the call is
  suspended with a write to come (a call whose answer is a rejection writes nothing).
\<close>

datatype continuation =
    PushToken token
  | FinishLock string
  | FinishUnlock signer
  | StoreNonce nat

fun resume :: "continuation \<Rightarrow> session \<Rightarrow> session" where
  "resume (PushToken t) s = s\<lparr>tokens := tokens s @ [t]\<rparr>"
| "resume (FinishLock j) s =
     s\<lparr>encryptedJsonWallet := j, wallet := None, isLocked := True,
       provider := None, tokens := [], network := []\<rparr>"
| "resume (FinishUnlock w) s =
     (case initWallet (IsSigner w) s of Inl e \<Rightarrow> s | Inr s' \<Rightarrow> s')"
| "resume (StoreNonce n) s = s\<lparr>transactionNonce := Some n\<rparr>"

fun start :: "ethers \<Rightarrow> operation \<Rightarrow> session \<Rightarrow> session \<times> continuation option" where
  "start env (AddToken symb a) s =
     (if isLocked s then (s, None)
      else if find (\<lambda>t. token_address t = a) (tokens s) \<noteq> None then (s, None)
      else
        (case createERC20TokenContract (wallet s) a of
           Inl e \<Rightarrow> (s, None)
         | Inr c \<Rightarrow>
             (case contract_decimals env c of
                Inl e \<Rightarrow> (s, None)
              | Inr d \<Rightarrow>
                  (s, Some (PushToken \<lparr>symbol = symb, token_address = a, decimals = d,
                                       oneToken = 10 ^ d, contract = c\<rparr>)))))"
| "start env (Lock password) s =
     (if encryptedJsonWallet s = [] then
        (case wallet s of
           None \<Rightarrow> (s, None)
         | Some w \<Rightarrow>
             (case encrypt env w password of
                Inl e \<Rightarrow> (s, None)
              | Inr j \<Rightarrow> (s, Some (FinishLock j))))
      else
        (s\<lparr>wallet := None, isLocked := True, provider := None, tokens := [], network := []\<rparr>,
         None))"
| "start env (Unlock password) s =
     (case fromEncryptedJson env (encryptedJsonWallet s) password of
        Inl e \<Rightarrow> (s, None)
      | Inr w \<Rightarrow> (s, Some (FinishUnlock w)))"
| "start env SetNonce s =
     (case wallet s of
        None \<Rightarrow> (s, None)
      | Some w \<Rightarrow>
          (case getTransactionCount env w of
             Inl e \<Rightarrow> (s, None)
           | Inr n \<Rightarrow> (s, Some (StoreNonce n))))"
| "start env op s = (exec env op s, None)"

text \<open>A session together with the continuations of the calls that are suspended. In one
  step a call starts, with the answers the collaborators give to it, or a suspended
  call resumes.\<close>

inductive step ::
  "session \<times> continuation list \<Rightarrow> session \<times> continuation list \<Rightarrow> bool" where
  started: "start env op s = (s', k) \<Longrightarrow>
            step (s, ks) (s', (case k of None \<Rightarrow> ks | Some c \<Rightarrow> c # ks))"
| resumed: "c \<in> set ks \<Longrightarrow> step (s, ks) (resume c s, remove1 c ks)"

text \<open>The states a session can be in, with the calls suspended in them: the one the
  constructor leaves, and every one that a step leads to.\<close>

inductive reachable :: "session \<Rightarrow> continuation list \<Rightarrow> bool" where
  constructed: "WebWallet v encrypted = Inr s \<Longrightarrow> reachable s []"
| stepped: "reachable s ks \<Longrightarrow> step (s, ks) (s', ks') \<Longrightarrow> reachable s' ks'"




text \<open>Whether a suspended call is a \<^verbatim>\<open>lock\<close> that is about to store a backup.\<close>

fun stores_backup :: "continuation \<Rightarrow> bool" where
  "stores_backup (FinishLock j) = True"
| "stores_backup _ = False"

section \<open>The gas price client\<close>

text \<open>\<^verbatim>\<open>axios.create({baseURL, timeout})\<close> and \<^verbatim>\<open>gasApi.get()\<close>: the request that the
  instance hands to the HTTP transport, and the value the transport's promise settles
  with, which \<^verbatim>\<open>getGasPrice\<close> returns as it is.\<close>

datatype json =
    JNull
  | JBool bool
  | JNumber int
  | JString string
  | JArray "json list"
  | JObject "(string \<times> json) list"

record http_request =
  http_method :: string
  http_url :: string
  http_timeout :: nat

definition gasApi :: http_request where
  "gasApi = \<lparr>http_method = ''get'',
             http_url = ''https://ethgasstation.info/json/ethgasAPI.json'',
             http_timeout = 10000\<rparr>"

definition getGasPrice :: "(http_request \<Rightarrow> error + json) \<Rightarrow> (error + json) \<times> http_request list" where
  "getGasPrice axios = (axios gasApi, [gasApi])"

section \<open>A sample collaborator\<close>

text \<open>One concrete set of answers of the library and the network, on which the
  theorems below are instantiated. Its key store is a toy: the backup of a key under a
  passphrase is the passphrase, a colon and the key, and it opens with that passphrase
  only. An address is taken as well formed when it has 42 characters and starts with
  \<^verbatim>\<open>0x\<close>. It parses the amount \<^verbatim>\<open>1\<close> and the gas price \<^verbatim>\<open>20\<close> only, formats whole
  amounts of ether, and knows the hexadecimal form of 20 gwei.\<close>

definition usdc :: string where
  "usdc = ''0xA0b86991c6218b36c1d19D4a2e9Eb0cE3606eB48''"

definition points :: string where
  "points = ''0x95aD61b0a150d79219dCF64E1E6Cc01f0B64C4cE''"

definition friend :: string where
  "friend = ''0x71C7656EC7ab88b098defB751B7401B5f6d8976F''"

definition sample_signer :: signer where
  "sample_signer = \<lparr>address = ''0xk1'', privateKey = ''k1'', mnemonic = [], signer_provider = None\<rparr>"

definition sample_events :: "transfer_event list" where
  "sample_events =
     [\<lparr>ev_transactionHash = ''0xh1'', ev_from = ''0xk1'', ev_to = ''0xk1'',
       ev_amount = 3000000000000000000\<rparr>,
      \<lparr>ev_transactionHash = ''0xh2'', ev_from = ''0xk1'', ev_to = friend,
       ev_amount = 2500000\<rparr>,
      \<lparr>ev_transactionHash = ''0xh3'', ev_from = friend, ev_to = ''0xk1'',
       ev_amount = 12000000000000000000\<rparr>,
      \<lparr>ev_transactionHash = ''0xh4'', ev_from = friend, ev_to = usdc,
       ev_amount = 7000000000000000000\<rparr>]"

definition sample_history :: "explorer_tx list" where
  "sample_history =
     [\<lparr>etx_hash = ''0xe1'', etx_from = friend, etx_to = Some friend,
       etx_value = 2000000000000000000, etx_timestamp = 1600000000\<rparr>]"

definition sample_ethers :: ethers where
  "sample_ethers =
     \<lparr>getDefaultProvider = (\<lambda>n. Inr (Provider n)),
      encrypt = (\<lambda>w p. Inr (p @ '':'' @ privateKey w)),
      fromEncryptedJson =
        (\<lambda>j p. if take (length p + 1) j = p @ '':''
                then Inr \<lparr>address = ''0x'' @ drop (length p + 1) j,
                          privateKey = drop (length p + 1) j, mnemonic = [],
                          signer_provider = None\<rparr>
                else Inl (Error ''invalid password'')),
      contract_decimals = (\<lambda>c. if contract_address c = usdc then Inr 6 else Inr 0),
      contract_balanceOf =
        (\<lambda>c a. if contract_address c = usdc then Inr 12345678 else Inr 9007199254740992),
      contract_queryFilter = (\<lambda>c n. Inr sample_events),
      contract_transfer = (\<lambda>c to amount ov. Inr (TxHandle ''0xt1'')),
      getTransactionCount = (\<lambda>w. Inr 7),
      getBalance = (\<lambda>w. Inr 1000000000000000000),
      sendTransaction = (\<lambda>w r. Inr (TxHandle ''0xt2'')),
      getHistory = (\<lambda>n a b e. Inr sample_history),
      utils_getAddress =
        (\<lambda>a. if length a = 42 \<and> take 2 a = ''0x'' then Inr a
              else Inl (Error ''invalid address'')),
      parseEther =
        (\<lambda>a. if a = ''1'' then Inr 1000000000000000000
              else Inl (Error ''invalid decimal value'')),
      parseUnits =
        (\<lambda>g u. if g = ''20'' \<and> u = ''gwei'' then Inr 20000000000
                else Inl (Error ''invalid decimal value'')),
      formatEther = (\<lambda>n. nat_toString (n div 10 ^ 18) @ ''.0''),
      toHexString = (\<lambda>i. if i = 20000000000 then ''0x04a817c800'' else ''0x00''),
      bigNumber_from =
        (\<lambda>a. if a = ''5'' then Inr 5 else Inl (Error ''invalid BigNumber string''))\<rparr>"

text \<open>The session the constructor leaves for the sample signer, and the sessions that
  follow from it by \<^verbatim>\<open>connect()\<close>, \<^verbatim>\<open>addToken\<close>, \<^verbatim>\<open>setNonce()\<close> and \<^verbatim>\<open>lock\<close>.\<close>

definition sample_new :: session where
  "sample_new =
     \<lparr>wallet = Some sample_signer, isLocked = False, tokens = [], provider = None,
      transactionNonce = None, network = [], encryptedJsonWallet = []\<rparr>"

definition sample_connected :: session where
  "sample_connected = exec sample_ethers (Connect None) sample_new"

definition sample_registered :: session where
  "sample_registered =
     exec sample_ethers SetNonce
       (exec sample_ethers (AddToken ''PTS'' points)
          (exec sample_ethers (AddToken ''USDC'' usdc) sample_connected))"

definition sample_locked :: session where
  "sample_locked = exec sample_ethers (Lock ''correct horse'') sample_registered"

definition sample_reopened :: session where
  "sample_reopened = exec sample_ethers (Unlock ''correct horse'') sample_locked"



text \<open>Two \<^verbatim>\<open>lock\<close> calls that overlap on \<open>sample_registered\<close>, which holds no backup:
  both are started before either resumes, the one with the passphrase \<^verbatim>\<open>first\<close>
  resumes, then the other.\<close>

definition sample_locked_first :: session where
  "sample_locked_first = resume (FinishLock ''first:k1'') sample_registered"

definition sample_locked_second :: session where
  "sample_locked_second = resume (FinishLock ''second:k1'') sample_locked_first"

text \<open>A session whose nonce has reached \<open>2 ^ 53\<close>: the network reports the count
  \<open>2 ^ 53 - 1\<close> to \<^verbatim>\<open>setNonce()\<close>, and one transfer is sent.\<close>

definition sample_counted :: session where
  "sample_counted =
     exec sample_ethers (SendEther friend ''1'' ''20'' None)
       (exec (sample_ethers\<lparr>getTransactionCount := (\<lambda>w. Inr 9007199254740991)\<rparr>) SetNonce
          sample_registered)"

text \<open>A sample answer of the HTTP transport: the response object that the promise of
  \<^verbatim>\<open>gasApi.get()\<close> resolves to, with the parsed body under \<^verbatim>\<open>data\<close>.\<close>

definition sample_body :: json where
  "sample_body = JObject [(''fast'', JNumber 910), (''average'', JNumber 600)]"

definition sample_response :: json where
  "sample_response =
     JObject [(''data'', sample_body), (''status'', JNumber 200),
              (''statusText'', JString ''OK'')]"

definition sample_axios :: "http_request \<Rightarrow> error + json" where
  "sample_axios r = Inr sample_response"

section \<open>Supporting facts\<close>

lemmas method_defs =
  connect_def addToken_def lock_def unlock_def setNonce_def getAddress_def
  getPrivateKey_def getMnemonics_def getEtherBalance_def getTokenBalance_def
  getEtherHistory_def getTokenHistory_def sendEther_def sendToken_def removeToken_def
  isLocked_method_def getProvider_def getNetwork_def initWallet_def
  createERC20TokenContract_def state_of_def calls_of_def nonce_increment_def Let_def

lemmas sample_defs =
  sample_ethers_def sample_new_def sample_signer_def usdc_def points_def friend_def

subsection \<open>The sample sessions, evaluated\<close>

lemma sample_connected_eq:
  "sample_connected =
     \<lparr>wallet = Some \<lparr>address = ''0xk1'', privateKey = ''k1'', mnemonic = [],
                      signer_provider = Some (Provider ''homestead'')\<rparr>,
      isLocked = False, tokens = [], provider = Some (Provider ''homestead''),
      transactionNonce = None, network = ''homestead'', encryptedJsonWallet = []\<rparr>"
  by (simp add: sample_connected_def method_defs sample_defs)

lemma sample_registered_eq:
  "sample_registered =
     \<lparr>wallet = Some \<lparr>address = ''0xk1'', privateKey = ''k1'', mnemonic = [],
                      signer_provider = Some (Provider ''homestead'')\<rparr>,
      isLocked = False,
      tokens =
        [\<lparr>symbol = ''USDC'', token_address = usdc, decimals = 6, oneToken = 1000000,
          contract = \<lparr>contract_address = usdc,
                      contract_signer =
                        \<lparr>address = ''0xk1'', privateKey = ''k1'', mnemonic = [],
                         signer_provider = Some (Provider ''homestead'')\<rparr>\<rparr>\<rparr>,
         \<lparr>symbol = ''PTS'', token_address = points, decimals = 0, oneToken = 1,
          contract = \<lparr>contract_address = points,
                      contract_signer =
                        \<lparr>address = ''0xk1'', privateKey = ''k1'', mnemonic = [],
                         signer_provider = Some (Provider ''homestead'')\<rparr>\<rparr>\<rparr>],
      provider = Some (Provider ''homestead''), transactionNonce = Some 7,
      network = ''homestead'', encryptedJsonWallet = []\<rparr>"
  by (simp add: sample_registered_def sample_connected_eq method_defs sample_defs)

lemma sample_locked_eq:
  "sample_locked =
     \<lparr>wallet = None, isLocked = True, tokens = [], provider = None,
      transactionNonce = Some 7, network = [], encryptedJsonWallet = ''correct horse:k1''\<rparr>"
  by (simp add: sample_locked_def sample_registered_eq method_defs sample_ethers_def)

lemma sample_reopened_eq:
  "sample_reopened =
     \<lparr>wallet = Some \<lparr>address = ''0xk1'', privateKey = ''k1'', mnemonic = [],
                      signer_provider = None\<rparr>,
      isLocked = False, tokens = [], provider = None,
      transactionNonce = Some 7, network = [], encryptedJsonWallet = ''correct horse:k1''\<rparr>"
  by (simp add: sample_reopened_def sample_locked_eq method_defs sample_ethers_def)

subsection \<open>A call that nothing overlaps is a start followed by its resumption\<close>

lemma exec_start:
  "exec env op s =
     (case start env op s of (s', None) \<Rightarrow> s' | (s', Some c) \<Rightarrow> resume c s')"
proof (cases op)
  case (AddToken symb a)
  then show ?thesis
    by (simp add: addToken_def state_of_def split: sum.splits)
next
  case (Lock p)
  then show ?thesis
    by (simp add: lock_def state_of_def split: option.splits sum.splits)
next
  case (Unlock p)
  then show ?thesis
    by (simp add: unlock_def state_of_def split: sum.splits)
next
  case SetNonce
  then show ?thesis
    by (simp add: setNonce_def state_of_def split: option.splits sum.splits)
qed simp_all

lemma step_exec: "rtranclp step (s, ks) (exec env op s, ks)"
proof -
  obtain s' k where st: "start env op s = (s', k)" by (cases "start env op s")
  show ?thesis
  proof (cases k)
    case None
    with st have "exec env op s = s'" by (simp add: exec_start)
    moreover from step.started [OF st, of ks] None have "step (s, ks) (s', ks)" by simp
    ultimately show ?thesis by auto
  next
    case (Some c)
    with st have e: "exec env op s = resume c s'" by (simp add: exec_start)
    from step.started [OF st, of ks] Some have 1: "step (s, ks) (s', c # ks)" by simp
    have "step (s', c # ks) (resume c s', remove1 c (c # ks))"
      by (rule step.resumed) simp
    then have 2: "step (s', c # ks) (resume c s', ks)" by simp
    from 1 2 e show ?thesis by auto
  qed
qed

lemma reachable_steps:
  "rtranclp step c c' \<Longrightarrow> reachable (fst c) (snd c) \<Longrightarrow> reachable (fst c') (snd c')"
proof (induction rule: rtranclp_induct)
  case base
  then show ?case .
next
  case (step y z)
  then have "reachable (fst y) (snd y)" by simp
  moreover from step.hyps(2) have "step (fst y, snd y) (fst z, snd z)" by simp
  ultimately show ?case by (rule reachable.stepped)
qed

lemma reachable_exec: "reachable s ks \<Longrightarrow> reachable (exec env op s) ks"
  using reachable_steps [OF step_exec, of s ks env op] by simp


subsection \<open>The sample sessions are reachable\<close>

lemma constructed_sample_new: "WebWallet (IsSigner sample_signer) None = Inr sample_new"
  by (simp add: WebWallet_def initWallet_def sample_new_def)

lemma reachable_sample_registered: "reachable sample_registered []"
  unfolding sample_registered_def sample_connected_def
  by (intro reachable_exec reachable.constructed [OF constructed_sample_new])



subsection \<open>What a start and a resumption can change\<close>

lemma find_token_None:
  "find (\<lambda>t. token_address t = a) ts = None \<longleftrightarrow> a \<notin> token_address ` set ts"
  by (auto simp: find_None_iff)

lemma find_token_distinct:
  "distinct (map token_address ts) \<Longrightarrow> t \<in> set ts \<Longrightarrow>
   find (\<lambda>x. token_address x = token_address t) ts = Some t"
  by (induction ts) (auto simp: image_iff)

lemma start_effect:
  assumes "start env op s = (s', k)"
  shows "encryptedJsonWallet s' = encryptedJsonWallet s
       \<and> (tokens s' = tokens s \<or> tokens s' = []
            \<or> (\<exists>a. tokens s' = filter (\<lambda>t. token_address t \<noteq> a) (tokens s)))
       \<and> (\<forall>c. k = Some c \<and> stores_backup c \<longrightarrow> encryptedJsonWallet s = [])
       \<and> (\<forall>t. k = Some (PushToken t) \<longrightarrow>
              oneToken t = 10 ^ decimals t
              \<and> token_address t \<notin> token_address ` set (tokens s) \<and> tokens s' = tokens s)"
proof -
  have plain: ?thesis
    if "k = None" and "encryptedJsonWallet s' = encryptedJsonWallet s" and "tokens s' = tokens s"
    using that by simp
  show ?thesis
  proof (cases op)
    case (AddToken symb a)
    with assms show ?thesis
      by (auto simp: find_token_None split: if_splits sum.splits)
  next
    case (Lock p)
    with assms show ?thesis by (auto split: if_splits option.splits sum.splits)
  next
    case (Unlock p)
    with assms show ?thesis by (auto split: sum.splits)
  next
    case SetNonce
    with assms show ?thesis by (auto split: option.splits sum.splits)
  next
    case (RemoveToken a)
    with assms have "k = None" and "encryptedJsonWallet s' = encryptedJsonWallet s"
      and "tokens s' = tokens s \<or> tokens s' = filter (\<lambda>t. token_address t \<noteq> a) (tokens s)"
      by (auto simp: removeToken_def state_of_def split: if_splits)
    then show ?thesis by simp blast
  next
    case (Connect n)
    with assms show ?thesis
      by (intro plain)
        (auto simp: connect_def state_of_def Let_def split: option.splits sum.splits)
  next
    case (SendEther to amount gas sp)
    with assms show ?thesis
      by (intro plain)
        (auto simp: sendEther_def state_of_def nonce_increment_def Let_def
           split: option.splits sum.splits)
  next
    case (SendToken a to amount gas sp)
    with assms show ?thesis
      by (intro plain)
        (auto simp: sendToken_def state_of_def nonce_increment_def Let_def
           split: option.splits sum.splits)
  next
    case (GetTokenBalance a)
    with assms show ?thesis
      by (intro plain)
        (auto simp: getTokenBalance_def state_of_def split: option.splits sum.splits)
  next
    case (GetTokenHistory a)
    with assms show ?thesis
      by (intro plain)
        (auto simp: getTokenHistory_def state_of_def split: option.splits sum.splits)
  next
    case (GetEtherHistory n a b e)
    with assms show ?thesis
      by (intro plain)
        (auto simp: getEtherHistory_def state_of_def Let_def split: option.splits sum.splits)
  next
    case GetEtherBalance
    with assms show ?thesis
      by (intro plain)
        (auto simp: getEtherBalance_def state_of_def split: option.splits sum.splits)
  next
    case IsLocked
    with assms show ?thesis by (intro plain) (auto simp: isLocked_method_def state_of_def)
  next
    case GetAddress
    with assms show ?thesis
      by (intro plain) (auto simp: getAddress_def state_of_def split: option.splits)
  next
    case GetProvider
    with assms show ?thesis by (intro plain) (auto simp: getProvider_def state_of_def)
  next
    case GetNetwork
    with assms show ?thesis by (intro plain) (auto simp: getNetwork_def state_of_def)
  next
    case GetMnemonics
    with assms show ?thesis
      by (intro plain) (auto simp: getMnemonics_def state_of_def split: option.splits)
  next
    case GetPrivateKey
    with assms show ?thesis
      by (intro plain) (auto simp: getPrivateKey_def state_of_def split: option.splits)
  qed
qed




subsection \<open>Invariants\<close>

lemma reachable_scaled:
  "reachable s ks \<Longrightarrow>
   (\<forall>t\<in>set (tokens s). oneToken t = 10 ^ decimals t)
   \<and> (\<forall>t. PushToken t \<in> set ks \<longrightarrow> oneToken t = 10 ^ decimals t)"
proof (induction rule: reachable.induct)
  case (constructed v encrypted s)
  then show ?case
    by (auto simp: WebWallet_def initWallet_def split: jsvalue.splits)
next
  case (stepped s ks s' ks')
  from stepped.hyps(2) show ?case
  proof (cases rule: step.cases)
    case (started env op k)
    from start_effect [OF started(2)] stepped.IH started(1) show ?thesis
      by (cases k) auto
  next
    case (resumed c)
    from stepped.IH resumed show ?thesis
      by (cases c) (auto simp: initWallet_def dest: notin_set_remove1)
  qed
qed


lemma step_backup:
  assumes "step (s, ks) (s', ks')"
    and "encryptedJsonWallet s \<noteq> []" and "\<not> list_ex stores_backup ks"
  shows "encryptedJsonWallet s' = encryptedJsonWallet s \<and> \<not> list_ex stores_backup ks'"
  using assms(1)
proof (cases rule: step.cases)
  case (started env op k)
  from start_effect [OF started(2)] assms(2,3) started(1) show ?thesis
    by (cases k) auto
next
  case (resumed c)
  from assms(3) resumed have "\<not> stores_backup c" by (auto simp: list_ex_iff)
  with assms(3) resumed show ?thesis
    by (cases c) (auto simp: initWallet_def list_ex_iff dest: notin_set_remove1)
qed

lemma steps_backup:
  "rtranclp step c c' \<Longrightarrow> encryptedJsonWallet (fst c) \<noteq> [] \<Longrightarrow>
   \<not> list_ex stores_backup (snd c) \<Longrightarrow>
   encryptedJsonWallet (fst c') = encryptedJsonWallet (fst c) \<and> \<not> list_ex stores_backup (snd c')"
proof (induction rule: rtranclp_induct)
  case base
  then show ?case by simp
next
  case (step y z)
  then have 1: "encryptedJsonWallet (fst y) = encryptedJsonWallet (fst c)"
    and 2: "\<not> list_ex stores_backup (snd y)" by simp_all
  from step.hyps(2) have "step (fst y, snd y) (fst z, snd z)" by simp
  from step_backup [OF this] 1 2 step.prems(1) show ?case by simp
qed

section \<open>Locking and unlocking\<close>

text \<open>
  Claim C2, as the code has it. \<^verbatim>\<open>lock\<close> encrypts only when the session holds no
  backup yet, and otherwise returns the backup it holds. So for an unlocked session and
  a passphrase such that the backup which \<^verbatim>\<open>lock(p)\<close> returns opens under that
  passphrase to a handle of the same address, \<^verbatim>\<open>lock(p)\<close> followed by \<^verbatim>\<open>unlock(p)\<close>
  leaves \<^verbatim>\<open>isLocked()\<close> false and \<^verbatim>\<open>getAddress()\<close> as it was.
\<close>

theorem lock_then_unlock_restores:
  assumes "wallet s = Some w" and "\<not> isLocked s"
    and "fst (lock env p s) = Inr j"
    and "fromEncryptedJson env j p = Inr w'"
    and "address w' = address w"
  shows "fst (isLocked_method (state_of (unlock env p (state_of (lock env p s))))) = Inr False
       \<and> fst (getAddress (state_of (unlock env p (state_of (lock env p s))))) = fst (getAddress s)"
  using assms
  by (auto simp: lock_def unlock_def initWallet_def isLocked_method_def getAddress_def
        state_of_def split: if_splits sum.splits)

theorem lock_then_unlock_restores_witness:
  "\<not> isLocked sample_registered
   \<and> fst (lock sample_ethers ''correct horse'' sample_registered) = Inr ''correct horse:k1''
   \<and> fst (isLocked_method (state_of (unlock sample_ethers ''correct horse''
            (state_of (lock sample_ethers ''correct horse'' sample_registered))))) = Inr False
   \<and> fst (getAddress (state_of (unlock sample_ethers ''correct horse''
            (state_of (lock sample_ethers ''correct horse'' sample_registered)))))
       = Inr ''0xk1''
   \<and> \<not> isLocked sample_reopened
   \<and> encryptedJsonWallet sample_reopened = ''correct horse:k1''
   \<and> fst (isLocked_method (state_of (unlock sample_ethers ''correct horse''
            (state_of (lock sample_ethers ''correct horse'' sample_reopened))))) = Inr False
   \<and> fst (getAddress (state_of (unlock sample_ethers ''correct horse''
            (state_of (lock sample_ethers ''correct horse'' sample_reopened)))))
       = Inr ''0xk1''"
proof -
  let ?w = "sample_signer\<lparr>signer_provider := Some (Provider ''homestead'')\<rparr>"
  let ?w' = "\<lparr>address = ''0xk1'', privateKey = ''k1'', mnemonic = [], signer_provider = None\<rparr>"
  have 1: "wallet sample_registered = Some ?w"
    by (simp add: sample_registered_eq sample_signer_def)
  have 2: "\<not> isLocked sample_registered" by (simp add: sample_registered_eq)
  have 3: "fst (lock sample_ethers ''correct horse'' sample_registered) = Inr ''correct horse:k1''"
    by (simp add: sample_registered_eq lock_def sample_ethers_def)
  have 4: "fromEncryptedJson sample_ethers ''correct horse:k1'' ''correct horse'' = Inr ?w'"
    by (simp add: sample_ethers_def)
  have 5: "address ?w' = address ?w" by (simp add: sample_signer_def)
  have 6: "fst (getAddress sample_registered) = Inr ''0xk1''"
    by (simp add: sample_registered_eq getAddress_def)
  have 7: "wallet sample_reopened = Some ?w'" by (simp add: sample_reopened_eq)
  have 8: "\<not> isLocked sample_reopened" by (simp add: sample_reopened_eq)
  have 9: "fst (lock sample_ethers ''correct horse'' sample_reopened) = Inr ''correct horse:k1''"
    by (simp add: sample_reopened_eq lock_def)
  have 10: "fst (getAddress sample_reopened) = Inr ''0xk1''"
    by (simp add: sample_reopened_eq getAddress_def)
  have 11: "encryptedJsonWallet sample_reopened = ''correct horse:k1''"
    by (simp add: sample_reopened_eq)
  from lock_then_unlock_restores [OF 1 2 3 4 5] lock_then_unlock_restores [OF 7 8 9 4 refl]
    2 3 6 8 10 11
  show ?thesis by simp
qed

text \<open>
  Claim C2, as stated, fails: the sample session \<open>sample_reopened\<close> is unlocked and
  keeps the backup of an earlier \<^verbatim>\<open>lock('correct horse')\<close>. \<^verbatim>\<open>lock('other')\<close> returns
  that backup without encrypting, and \<^verbatim>\<open>unlock('other')\<close> is rejected: the session
  stays locked.
\<close>

theorem lock_then_unlock_counterexample:
  "\<not> isLocked sample_reopened
   \<and> fst (getAddress sample_reopened) = Inr ''0xk1''
   \<and> fst (lock sample_ethers ''other'' sample_reopened) = Inr ''correct horse:k1''
   \<and> fst (unlock sample_ethers ''other'' (state_of (lock sample_ethers ''other'' sample_reopened)))
       = Inl (Error ''invalid password'')
   \<and> fst (isLocked_method (state_of (unlock sample_ethers ''other''
            (state_of (lock sample_ethers ''other'' sample_reopened))))) = Inr True
   \<and> fst (getAddress (state_of (unlock sample_ethers ''other''
            (state_of (lock sample_ethers ''other'' sample_reopened)))))
       = Inl (Error ''Wallet is locked!'')"
  by (simp add: sample_reopened_eq lock_def unlock_def getAddress_def isLocked_method_def
        state_of_def locked_error_def sample_ethers_def)

text \<open>
  Claim C3. When the library rejects the passphrase for the stored backup (the
  rejection that the specification calls AuthenticationError), \<^verbatim>\<open>unlock\<close> is rejected
  with that same error, and the session is left exactly as it was: still locked, the
  signing handle absent, every other field unchanged.
\<close>

theorem unlock_wrong_passphrase:
  assumes "isLocked s" and "wallet s = None"
    and "fromEncryptedJson env (encryptedJsonWallet s) p = Inl authenticationError"
  shows "fst (unlock env p s) = Inl authenticationError
       \<and> state_of (unlock env p s) = s
       \<and> isLocked (state_of (unlock env p s))
       \<and> wallet (state_of (unlock env p s)) = None"
  using assms by (simp add: unlock_def state_of_def)

theorem unlock_wrong_passphrase_witness:
  "isLocked sample_locked \<and> wallet sample_locked = None
   \<and> encryptedJsonWallet sample_locked = ''correct horse:k1''
   \<and> fst (unlock sample_ethers ''battery staple'' sample_locked) = Inl (Error ''invalid password'')
   \<and> state_of (unlock sample_ethers ''battery staple'' sample_locked) = sample_locked"
proof -
  have 1: "isLocked sample_locked" by (simp add: sample_locked_eq)
  have 2: "wallet sample_locked = None" by (simp add: sample_locked_eq)
  have 3: "fromEncryptedJson sample_ethers (encryptedJsonWallet sample_locked) ''battery staple''
             = Inl (Error ''invalid password'')"
    by (simp add: sample_locked_eq sample_ethers_def)
  have 4: "encryptedJsonWallet sample_locked = ''correct horse:k1''"
    by (simp add: sample_locked_eq)
  from unlock_wrong_passphrase [OF 1 2 3] 1 2 4 show ?thesis by simp
qed

text \<open>
  Claim C5. On an unlocked session (the signing handle is present), \<^verbatim>\<open>lock\<close> asks
  the library to encrypt the handle only when the session holds no backup yet, and
  otherwise awaits nothing; it clears the handle, the provider, the token list and the
  network name, sets the lock flag and returns the backup. A second \<^verbatim>\<open>lock\<close>, with any
  passphrase, returns the same backup, encrypts nothing and changes nothing. (The
  library's backup is a JSON text, hence not the empty string.)
\<close>

theorem lock_clears_and_returns_backup:
  assumes "wallet s = Some w"
    and "encryptedJsonWallet s = [] \<longrightarrow> encrypt env w p = Inr j \<and> j \<noteq> []"
    and "b = (if encryptedJsonWallet s = [] then j else encryptedJsonWallet s)"
  shows "lock env p s =
           (Inr b,
            \<lparr>wallet = None, isLocked = True, tokens = [], provider = None,
             transactionNonce = transactionNonce s, network = [], encryptedJsonWallet = b\<rparr>,
            if encryptedJsonWallet s = [] then [Encrypt w p] else [])
       \<and> lock env' p' (state_of (lock env p s)) = (Inr b, state_of (lock env p s), [])"
  using assms by (auto simp: lock_def state_of_def)

theorem lock_clears_and_returns_backup_witness:
  "lock sample_ethers ''correct horse'' sample_registered =
     (Inr ''correct horse:k1'', sample_locked,
      [Encrypt (sample_signer\<lparr>signer_provider := Some (Provider ''homestead'')\<rparr>) ''correct horse''])
   \<and> lock sample_ethers ''other'' sample_locked = (Inr ''correct horse:k1'', sample_locked, [])"
proof -
  let ?w = "sample_signer\<lparr>signer_provider := Some (Provider ''homestead'')\<rparr>"
  have 1: "wallet sample_registered = Some ?w"
    by (simp add: sample_registered_eq sample_signer_def)
  have 2: "encryptedJsonWallet sample_registered = [] \<longrightarrow>
             encrypt sample_ethers ?w ''correct horse'' = Inr ''correct horse:k1''
             \<and> ''correct horse:k1'' \<noteq> []"
    by (simp add: sample_ethers_def sample_signer_def)
  have 3: "''correct horse:k1'' =
             (if encryptedJsonWallet sample_registered = [] then ''correct horse:k1''
              else encryptedJsonWallet sample_registered)"
    by (simp add: sample_registered_eq)
  have 4: "state_of (lock sample_ethers ''correct horse'' sample_registered) = sample_locked"
    by (simp add: sample_locked_def)
  have 5: "transactionNonce sample_registered = Some 7" by (simp add: sample_registered_eq)
  have 6: "encryptedJsonWallet sample_registered = []" by (simp add: sample_registered_eq)
  from lock_clears_and_returns_backup [OF 1 2 3, of sample_ethers "''other''"]
  show ?thesis by (simp add: 4 5 6 sample_locked_eq)
qed

text \<open>
  Claim C10, as the code has it. Once the stored backup is not empty and no suspended
  \<^verbatim>\<open>lock\<close> call is about to store one (a call that was started while the session held
  no backup and has not resumed yet), no step changes it, whatever calls start, overlap
  and resume, and whatever the collaborators answer: afterwards \<^verbatim>\<open>lock\<close> returns that
  same backup without encrypting, and \<^verbatim>\<open>unlock\<close> hands that same backup to the library
  and keeps it.
\<close>

theorem backup_never_modified:
  assumes "encryptedJsonWallet s \<noteq> []"
    and "\<not> list_ex stores_backup ks"
    and "rtranclp step (s, ks) (s', ks')"
  shows "encryptedJsonWallet s' = encryptedJsonWallet s
       \<and> fst (lock env p s') = Inr (encryptedJsonWallet s)
       \<and> calls_of (lock env p s') = []
       \<and> calls_of (unlock env p s') = [FromEncryptedJson (encryptedJsonWallet s) p]
       \<and> encryptedJsonWallet (state_of (unlock env p s')) = encryptedJsonWallet s"
proof -
  from steps_backup [OF assms(3)] assms(1,2)
  have keep: "encryptedJsonWallet s' = encryptedJsonWallet s" by simp
  with assms(1) show ?thesis
    by (simp add: lock_def unlock_def initWallet_def state_of_def calls_of_def
          split: sum.splits)
qed

theorem backup_never_modified_witness:
  "encryptedJsonWallet sample_locked \<noteq> []
   \<and> \<not> list_ex stores_backup []
   \<and> rtranclp step (sample_locked, [])
        (exec sample_ethers (Lock ''other'')
           (exec sample_ethers (Unlock ''correct horse'') sample_locked), [])
   \<and> encryptedJsonWallet
        (exec sample_ethers (Lock ''other'')
           (exec sample_ethers (Unlock ''correct horse'') sample_locked)) = ''correct horse:k1''"
proof -
  let ?s = "exec sample_ethers (Lock ''other'')
              (exec sample_ethers (Unlock ''correct horse'') sample_locked)"
  have 1: "encryptedJsonWallet sample_locked \<noteq> []" by (simp add: sample_locked_eq)
  have 2: "\<not> list_ex stores_backup []" by simp
  have 3: "rtranclp step (sample_locked, []) (?s, [])"
    by (rule rtranclp_trans [OF step_exec step_exec])
  have 4: "encryptedJsonWallet sample_locked = ''correct horse:k1''"
    by (simp add: sample_locked_eq)
  note kept = backup_never_modified [OF 1 2 3, of sample_ethers "''other''", THEN conjunct1]
  from 1 2 3 trans [OF kept 4] show ?thesis by (intro conjI)
qed

text \<open>
  Claim C10, as stated, fails: two \<^verbatim>\<open>lock\<close> calls are started on the sample session
  \<open>sample_registered\<close>, which holds no backup, before either resumes. The call with the
  passphrase \<^verbatim>\<open>first\<close> resumes and stores its backup; then the other resumes and
  overwrites that backup, which is not empty, with its own. The passphrase \<^verbatim>\<open>first\<close>
  no longer opens the session.
\<close>

theorem backup_overwritten_counterexample:
  "start sample_ethers (Lock ''first'') sample_registered
     = (sample_registered, Some (FinishLock ''first:k1''))
   \<and> start sample_ethers (Lock ''second'') sample_registered
     = (sample_registered, Some (FinishLock ''second:k1''))
   \<and> reachable sample_locked_first [FinishLock ''second:k1'']
   \<and> encryptedJsonWallet sample_locked_first = ''first:k1''
   \<and> step (sample_locked_first, [FinishLock ''second:k1'']) (sample_locked_second, [])
   \<and> encryptedJsonWallet sample_locked_second = ''second:k1''
   \<and> fst (unlock sample_ethers ''first'' sample_locked_second) = Inl (Error ''invalid password'')"
proof -
  have a: "start sample_ethers (Lock ''first'') sample_registered
             = (sample_registered, Some (FinishLock ''first:k1''))"
    by (simp add: sample_registered_eq sample_ethers_def)
  have b: "start sample_ethers (Lock ''second'') sample_registered
             = (sample_registered, Some (FinishLock ''second:k1''))"
    by (simp add: sample_registered_eq sample_ethers_def)
  from step.started [OF a, of "[]"]
  have 1: "step (sample_registered, []) (sample_registered, [FinishLock ''first:k1''])" by simp
  from step.started [OF b, of "[FinishLock ''first:k1'']"]
  have 2: "step (sample_registered, [FinishLock ''first:k1''])
             (sample_registered, [FinishLock ''second:k1'', FinishLock ''first:k1''])" by simp
  have "step (sample_registered, [FinishLock ''second:k1'', FinishLock ''first:k1''])
          (resume (FinishLock ''first:k1'') sample_registered,
           remove1 (FinishLock ''first:k1'') [FinishLock ''second:k1'', FinishLock ''first:k1''])"
    by (rule step.resumed) simp
  then have 3: "step (sample_registered, [FinishLock ''second:k1'', FinishLock ''first:k1''])
                  (sample_locked_first, [FinishLock ''second:k1''])"
    by (simp add: sample_locked_first_def)
  have "step (sample_locked_first, [FinishLock ''second:k1''])
          (resume (FinishLock ''second:k1'') sample_locked_first,
           remove1 (FinishLock ''second:k1'') [FinishLock ''second:k1''])"
    by (rule step.resumed) simp
  then have 4: "step (sample_locked_first, [FinishLock ''second:k1'']) (sample_locked_second, [])"
    by (simp add: sample_locked_second_def)
  from reachable_sample_registered 1 have "reachable sample_registered [FinishLock ''first:k1'']"
    by (rule reachable.stepped)
  from this 2
  have "reachable sample_registered [FinishLock ''second:k1'', FinishLock ''first:k1'']"
    by (rule reachable.stepped)
  from this 3 have 5: "reachable sample_locked_first [FinishLock ''second:k1'']"
    by (rule reachable.stepped)
  have 6: "encryptedJsonWallet sample_locked_first = ''first:k1''"
    by (simp add: sample_locked_first_def)
  have 7: "encryptedJsonWallet sample_locked_second = ''second:k1''"
    by (simp add: sample_locked_second_def)
  have 8: "fst (unlock sample_ethers ''first'' sample_locked_second)
             = Inl (Error ''invalid password'')"
    by (simp add: sample_locked_second_def sample_locked_first_def unlock_def sample_ethers_def)
  from a b 5 6 4 7 8 show ?thesis by (intro conjI)
qed

section \<open>Registered tokens\<close>




text \<open>
  Claim C6, as the code has it. On an unlocked session in any reachable state,
  overlapping calls included, \<^verbatim>\<open>getTokenBalance\<close> is rejected with the error
  \<^verbatim>\<open>Token does now exist!\<close> when the address is not registered. When it is registered,
  with decimals \<open>d\<close> in the entry that the lookup finds (the one entry with that address
  when the addresses are distinct), and the contract reports the raw balance \<open>B\<close>, the
  result is the whole number of tokens \<open>B div 10 ^ d\<close> provided that number is below
  \<open>2 ^ 53\<close>; otherwise the conversion to a JavaScript number is refused and the call is
  rejected with an overflow error.
\<close>

theorem getTokenBalance_whole_tokens:
  assumes "reachable s ks" and "\<not> isLocked s"
  shows "(a \<notin> token_address ` set (tokens s) \<longrightarrow>
            getTokenBalance env a s = (Inl (Error ''Token does now exist!''), s, []))
       \<and> (find (\<lambda>x. token_address x = a) (tokens s) = Some t \<and> wallet s = Some w
            \<and> contract_balanceOf env (contract t) (address w) = Inr B \<longrightarrow>
            getTokenBalance env a s =
              ((if B div 10 ^ decimals t < 2 ^ 53 then Inr (B div 10 ^ decimals t)
                else Inl (Error ''overflow'')),
               s, [BalanceOf (contract t) (address w)]))
       \<and> (distinct (map token_address (tokens s))
            \<and> t \<in> set (tokens s) \<and> token_address t = a \<and> wallet s = Some w
            \<and> contract_balanceOf env (contract t) (address w) = Inr B \<longrightarrow>
            getTokenBalance env a s =
              ((if B div 10 ^ decimals t < 2 ^ 53 then Inr (B div 10 ^ decimals t)
                else Inl (Error ''overflow'')),
               s, [BalanceOf (contract t) (address w)]))"
proof -
  have found: "getTokenBalance env a s =
          ((if B div 10 ^ decimals t < 2 ^ 53 then Inr (B div 10 ^ decimals t)
            else Inl (Error ''overflow'')),
           s, [BalanceOf (contract t) (address w)])"
    if f: "find (\<lambda>x. token_address x = a) (tokens s) = Some t"
      and w: "wallet s = Some w"
      and b: "contract_balanceOf env (contract t) (address w) = Inr B"
  proof -
    from f have "t \<in> set (tokens s)" by (auto simp: find_Some_iff in_set_conv_nth)
    with reachable_scaled [OF assms(1)] have "oneToken t = 10 ^ decimals t" by blast
    with assms(2) f w b show ?thesis
      by (simp add: getTokenBalance_def bn_div_def toNumber_def)
  qed
  have missing: "getTokenBalance env a s = (Inl (Error ''Token does now exist!''), s, [])"
    if "a \<notin> token_address ` set (tokens s)"
  proof -
    from that have "find (\<lambda>t. token_address t = a) (tokens s) = None"
      by (simp add: find_token_None)
    with assms(2) show ?thesis by (simp add: getTokenBalance_def)
  qed
  have unique: "find (\<lambda>x. token_address x = a) (tokens s) = Some t"
    if "distinct (map token_address (tokens s))" and "t \<in> set (tokens s)"
      and "token_address t = a"
    using find_token_distinct [of "tokens s" t] that by auto
  from found missing unique show ?thesis by blast
qed

theorem getTokenBalance_whole_tokens_witness:
  "reachable sample_registered [] \<and> \<not> isLocked sample_registered
   \<and> fst (getTokenBalance sample_ethers friend sample_registered)
       = Inl (Error ''Token does now exist!'')
   \<and> fst (getTokenBalance sample_ethers usdc sample_registered) = Inr 12"
proof -
  let ?w = "\<lparr>address = ''0xk1'', privateKey = ''k1'', mnemonic = [],
             signer_provider = Some (Provider ''homestead'')\<rparr>"
  let ?t = "\<lparr>symbol = ''USDC'', token_address = usdc, decimals = 6, oneToken = 1000000,
             contract = \<lparr>contract_address = usdc, contract_signer = ?w\<rparr>\<rparr>"
  have 1: "\<not> isLocked sample_registered" by (simp add: sample_registered_eq)
  have 2: "friend \<notin> token_address ` set (tokens sample_registered)"
    by (simp add: sample_registered_eq friend_def usdc_def points_def)
  have 3: "find (\<lambda>x. token_address x = usdc) (tokens sample_registered) = Some ?t
           \<and> wallet sample_registered = Some ?w
           \<and> contract_balanceOf sample_ethers (contract ?t) (address ?w) = Inr 12345678"
    by (simp add: sample_registered_eq sample_ethers_def)
  note thm1 = getTokenBalance_whole_tokens [OF reachable_sample_registered 1,
      of friend sample_ethers ?t ?w 0, THEN conjunct1, rule_format, OF 2]
  note thm2 = getTokenBalance_whole_tokens [OF reachable_sample_registered 1,
      of usdc sample_ethers ?t ?w 12345678, THEN conjunct2, THEN conjunct1, rule_format, OF 3]
  have 4: "fst (getTokenBalance sample_ethers friend sample_registered)
             = Inl (Error ''Token does now exist!'')"
    by (simp add: thm1)
  have 5: "fst (getTokenBalance sample_ethers usdc sample_registered) = Inr 12"
    by (simp add: thm2)
  from reachable_sample_registered 1 4 5 show ?thesis by blast
qed

text \<open>
  Claim C6, as stated, fails: in the sample session the token at \<open>points\<close> is registered
  with decimals 0 and its contract reports the raw balance \<open>2 ^ 53\<close>. The call does not
  return \<open>2 ^ 53 div 10 ^ 0\<close>; it is rejected.
\<close>

theorem getTokenBalance_counterexample:
  "map decimals (filter (\<lambda>t. token_address t = points) (tokens sample_registered)) = [0]
   \<and> calls_of (getTokenBalance sample_ethers points sample_registered)
       = [BalanceOf \<lparr>contract_address = points,
                     contract_signer = \<lparr>address = ''0xk1'', privateKey = ''k1'', mnemonic = [],
                                        signer_provider = Some (Provider ''homestead'')\<rparr>\<rparr>
            ''0xk1'']
   \<and> contract_balanceOf sample_ethers
        \<lparr>contract_address = points,
         contract_signer = \<lparr>address = ''0xk1'', privateKey = ''k1'', mnemonic = [],
                            signer_provider = Some (Provider ''homestead'')\<rparr>\<rparr>
        ''0xk1'' = Inr 9007199254740992
   \<and> fst (getTokenBalance sample_ethers points sample_registered) = Inl (Error ''overflow'')
   \<and> fst (getTokenBalance sample_ethers points sample_registered)
       \<noteq> Inr (9007199254740992 div 10 ^ 0)"
  by (simp add: sample_registered_eq getTokenBalance_def bn_div_def toNumber_def calls_of_def
        sample_ethers_def usdc_def points_def)

text \<open>
  Claim C7. \<^verbatim>\<open>getTokenHistory\<close> is rejected when the wallet is locked and when the
  token is not registered. On an unlocked session with the token registered, it asks
  the contract for its \<^verbatim>\<open>Transfer\<close> events and returns one entry for each event whose
  sender or recipient is the wallet address, in order, and for no other event: status
  \<^verbatim>\<open>SELF\<close> when both are the wallet address, \<^verbatim>\<open>OUT\<close> when only the sender is, \<^verbatim>\<open>IN\<close>
  otherwise, and as amount the transferred value divided by \<open>10 ^ 18\<close>, in decimal,
  whatever decimals the token is registered with.
\<close>

theorem getTokenHistory_entries:
  "(isLocked s \<longrightarrow> getTokenHistory env a s = (Inl (Error ''Wallet is locked!''), s, []))
   \<and> (\<not> isLocked s \<and> a \<notin> token_address ` set (tokens s) \<longrightarrow>
        getTokenHistory env a s = (Inl (Error ''Token does now exist!''), s, []))
   \<and> (\<not> isLocked s \<and> wallet s = Some w
        \<and> find (\<lambda>t. token_address t = a) (tokens s) = Some t
        \<and> contract_queryFilter env (contract t) ''Transfer'' = Inr events \<longrightarrow>
        getTokenHistory env a s =
          (Inr (map (\<lambda>d. \<lparr>th_transactionHash = ev_transactionHash d,
                           th_status =
                             (if ev_from d = address w \<and> ev_to d = address w then ''SELF''
                              else if ev_from d = address w then ''OUT'' else ''IN''),
                           th_from = ev_from d, th_to = ev_to d,
                           th_amount = nat_toString (ev_amount d div 10 ^ 18)\<rparr>)
                  (filter (\<lambda>d. ev_from d = address w \<or> ev_to d = address w) events)),
           s, [QueryFilter (contract t) ''Transfer'']))"
proof -
  have inv: "involves x = (\<lambda>d. ev_from d = x \<or> ev_to d = x)" for x
    by (auto simp: involves_def args_def fun_eq_iff)
  have ent: "token_entry x =
      (\<lambda>d. \<lparr>th_transactionHash = ev_transactionHash d,
             th_status = (if ev_from d = x \<and> ev_to d = x then ''SELF''
                          else if ev_from d = x then ''OUT'' else ''IN''),
             th_from = ev_from d, th_to = ev_to d,
             th_amount = nat_toString (ev_amount d div 10 ^ 18)\<rparr>)" for x
    by (simp add: token_entry_def token_status_def fun_eq_iff)
  show ?thesis
    by (simp add: getTokenHistory_def locked_error_def find_token_None [symmetric] inv ent)
qed

theorem getTokenHistory_entries_witness:
  "getTokenHistory sample_ethers usdc sample_locked
     = (Inl (Error ''Wallet is locked!''), sample_locked, [])
   \<and> fst (getTokenHistory sample_ethers friend sample_registered)
       = Inl (Error ''Token does now exist!'')
   \<and> fst (getTokenHistory sample_ethers usdc sample_registered) =
       Inr [\<lparr>th_transactionHash = ''0xh1'', th_status = ''SELF'', th_from = ''0xk1'',
             th_to = ''0xk1'', th_amount = ''3''\<rparr>,
            \<lparr>th_transactionHash = ''0xh2'', th_status = ''OUT'', th_from = ''0xk1'',
             th_to = friend, th_amount = ''0''\<rparr>,
            \<lparr>th_transactionHash = ''0xh3'', th_status = ''IN'', th_from = friend,
             th_to = ''0xk1'', th_amount = ''12''\<rparr>]"
proof -
  let ?w = "\<lparr>address = ''0xk1'', privateKey = ''k1'', mnemonic = [],
             signer_provider = Some (Provider ''homestead'')\<rparr>"
  let ?t = "\<lparr>symbol = ''USDC'', token_address = usdc, decimals = 6, oneToken = 1000000,
             contract = \<lparr>contract_address = usdc, contract_signer = ?w\<rparr>\<rparr>"
  have 1: "isLocked sample_locked" by (simp add: sample_locked_eq)
  have 2: "\<not> isLocked sample_registered
           \<and> friend \<notin> token_address ` set (tokens sample_registered)"
    by (simp add: sample_registered_eq friend_def usdc_def points_def)
  have 3: "\<not> isLocked sample_registered \<and> wallet sample_registered = Some ?w
           \<and> find (\<lambda>t. token_address t = usdc) (tokens sample_registered) = Some ?t
           \<and> contract_queryFilter sample_ethers (contract ?t) ''Transfer'' = Inr sample_events"
    by (simp add: sample_registered_eq sample_ethers_def)
  note locked = getTokenHistory_entries [of sample_locked sample_ethers usdc ?w ?t sample_events,
      THEN conjunct1, rule_format, OF 1]
  note missing = getTokenHistory_entries
      [of sample_registered sample_ethers friend ?w ?t sample_events,
       THEN conjunct2, THEN conjunct1, rule_format, OF 2]
  note found = getTokenHistory_entries
      [of sample_registered sample_ethers usdc ?w ?t sample_events,
       THEN conjunct2, THEN conjunct2, rule_format, OF 3]
  have 4: "fst (getTokenHistory sample_ethers friend sample_registered)
             = Inl (Error ''Token does now exist!'')"
    by (simp add: missing)
  have 5: "fst (getTokenHistory sample_ethers usdc sample_registered) =
       Inr [\<lparr>th_transactionHash = ''0xh1'', th_status = ''SELF'', th_from = ''0xk1'',
             th_to = ''0xk1'', th_amount = ''3''\<rparr>,
            \<lparr>th_transactionHash = ''0xh2'', th_status = ''OUT'', th_from = ''0xk1'',
             th_to = friend, th_amount = ''0''\<rparr>,
            \<lparr>th_transactionHash = ''0xh3'', th_status = ''IN'', th_from = friend,
             th_to = ''0xk1'', th_amount = ''12''\<rparr>]"
    by (simp only: found fst_conv)
       (simp add: sample_events_def friend_def usdc_def nat_toString.simps)
  from locked 4 5 show ?thesis by blast
qed

section \<open>Sending ether\<close>

lemma sample_counted_eq:
  "sample_counted = sample_registered\<lparr>transactionNonce := Some 9007199254740992\<rparr>"
  by (simp add: sample_counted_def sample_registered_eq setNonce_def sendEther_def
        state_of_def nonce_increment_def nonce_value_def number_increment_def Let_def
        sample_ethers_def friend_def)

text \<open>
  Claim C8, as the code has it. When the library refuses \<open>to\<close> as an address,
  \<^verbatim>\<open>sendEther\<close> is rejected with \<^verbatim>\<open>Invalid Ethereum address\<close>, awaits nothing from
  the network and leaves the session, its nonce included, as it was. When \<open>to\<close> is well
  formed, the session holds a signing handle and the library parses the amount and the
  gas price, it submits one transaction carrying the current nonce (0 when the nonce
  was never set), whatever the network answers, and, the nonce being below \<open>2 ^ 53\<close>,
  leaves it incremented by one.
\<close>

theorem sendEther_checks_address:
  "(utils_getAddress env to = Inl e \<longrightarrow>
      sendEther env to amount gas speed s = (Inl (Error ''Invalid Ethereum address''), s, [])
      \<and> filter is_network_call (calls_of (sendEther env to amount gas speed s)) = []
      \<and> transactionNonce (state_of (sendEther env to amount gas speed s)) = transactionNonce s)
   \<and> (utils_getAddress env to = Inr checked \<and> wallet s = Some w
        \<and> (transactionNonce s = None \<and> n = 0 \<or> transactionNonce s = Some n)
        \<and> n < 2 ^ 53
        \<and> parseEther env amount = Inr v \<and> parseUnits env gas ''gwei'' = Inr g \<longrightarrow>
        sendEther env to amount gas speed s =
          (sendTransaction env w
             \<lparr>tx_nonce = n, tx_to = to, tx_value = v, tx_gasPrice = toHexString env g\<rparr>,
           s\<lparr>transactionNonce := Some (n + 1)\<rparr>,
           [SendTransaction w
              \<lparr>tx_nonce = n, tx_to = to, tx_value = v, tx_gasPrice = toHexString env g\<rparr>]))"
  by (auto simp: sendEther_def state_of_def calls_of_def nonce_increment_def nonce_value_def
        number_increment_def Let_def split: option.splits)

theorem sendEther_checks_address_witness:
  "sendEther sample_ethers ''0x123'' ''1'' ''20'' None sample_registered
     = (Inl (Error ''Invalid Ethereum address''), sample_registered, [])
   \<and> sendEther sample_ethers friend ''1'' ''20'' None sample_registered
     = (Inr (TxHandle ''0xt2''), sample_registered\<lparr>transactionNonce := Some 8\<rparr>,
        [SendTransaction
           \<lparr>address = ''0xk1'', privateKey = ''k1'', mnemonic = [],
            signer_provider = Some (Provider ''homestead'')\<rparr>
           \<lparr>tx_nonce = 7, tx_to = friend, tx_value = 1000000000000000000,
            tx_gasPrice = ''0x04a817c800''\<rparr>])
   \<and> transactionNonce sample_connected = None
   \<and> sendEther sample_ethers friend ''1'' ''20'' None sample_connected
     = (Inr (TxHandle ''0xt2''), sample_connected\<lparr>transactionNonce := Some 1\<rparr>,
        [SendTransaction
           \<lparr>address = ''0xk1'', privateKey = ''k1'', mnemonic = [],
            signer_provider = Some (Provider ''homestead'')\<rparr>
           \<lparr>tx_nonce = 0, tx_to = friend, tx_value = 1000000000000000000,
            tx_gasPrice = ''0x04a817c800''\<rparr>])"
proof -
  let ?w = "\<lparr>address = ''0xk1'', privateKey = ''k1'', mnemonic = [],
             signer_provider = Some (Provider ''homestead'')\<rparr>"
  have 1: "utils_getAddress sample_ethers ''0x123'' = Inl (Error ''invalid address'')"
    by (simp add: sample_ethers_def)
  have 2: "utils_getAddress sample_ethers friend = Inr friend \<and> wallet sample_registered = Some ?w
           \<and> (transactionNonce sample_registered = None \<and> (7::nat) = 0
                \<or> transactionNonce sample_registered = Some 7)
           \<and> (7::nat) < 2 ^ 53
           \<and> parseEther sample_ethers ''1'' = Inr 1000000000000000000
           \<and> parseUnits sample_ethers ''20'' ''gwei'' = Inr 20000000000"
    by (simp add: sample_ethers_def sample_registered_eq friend_def)
  have 3: "toHexString sample_ethers 20000000000 = ''0x04a817c800''"
    by (simp add: sample_ethers_def)
  have 4: "sendTransaction sample_ethers ?w r = Inr (TxHandle ''0xt2'')" for r
    by (simp add: sample_ethers_def)
  have 5: "transactionNonce sample_connected = None" by (simp add: sample_connected_eq)
  have 6: "utils_getAddress sample_ethers friend = Inr friend \<and> wallet sample_connected = Some ?w
           \<and> (transactionNonce sample_connected = None \<and> (0::nat) = 0
                \<or> transactionNonce sample_connected = Some 0)
           \<and> (0::nat) < 2 ^ 53
           \<and> parseEther sample_ethers ''1'' = Inr 1000000000000000000
           \<and> parseUnits sample_ethers ''20'' ''gwei'' = Inr 20000000000"
    by (simp add: sample_ethers_def sample_connected_eq friend_def)
  note bad = sendEther_checks_address
      [of sample_ethers "''0x123''" "Error ''invalid address''" "''1''" "''20''" None
          sample_registered friend ?w 7 1000000000000000000 20000000000,
       THEN conjunct1, rule_format, OF 1, THEN conjunct1]
  note good = sendEther_checks_address
      [of sample_ethers friend "Error ''invalid address''" "''1''" "''20''" None
          sample_registered friend ?w 7 1000000000000000000 20000000000,
       THEN conjunct2, rule_format, OF 2]
  note fresh = sendEther_checks_address
      [of sample_ethers friend "Error ''invalid address''" "''1''" "''20''" None
          sample_connected friend ?w 0 1000000000000000000 20000000000,
       THEN conjunct2, rule_format, OF 6]
  have 7: "sendEther sample_ethers friend ''1'' ''20'' None sample_registered
     = (Inr (TxHandle ''0xt2''), sample_registered\<lparr>transactionNonce := Some 8\<rparr>,
        [SendTransaction ?w
           \<lparr>tx_nonce = 7, tx_to = friend, tx_value = 1000000000000000000,
            tx_gasPrice = ''0x04a817c800''\<rparr>])"
    by (simp only: good 3 4) simp
  have 8: "sendEther sample_ethers friend ''1'' ''20'' None sample_connected
     = (Inr (TxHandle ''0xt2''), sample_connected\<lparr>transactionNonce := Some 1\<rparr>,
        [SendTransaction ?w
           \<lparr>tx_nonce = 0, tx_to = friend, tx_value = 1000000000000000000,
            tx_gasPrice = ''0x04a817c800''\<rparr>])"
    by (simp only: fresh 3 4) simp
  from bad 7 5 8 show ?thesis by (intro conjI)
qed

text \<open>
  Claim C8, as stated, fails in its second half, in each of these calls with the
  well-formed address \<open>friend\<close>. With the amount \<^verbatim>\<open>abc\<close>, or with the gas price
  \<^verbatim>\<open>fast\<close>, neither of them a number, nothing is submitted (and the nonce has moved
  from 7 to 8 all the same). On the locked sample session nothing is submitted either.
  And on the sample session whose nonce has reached \<open>2 ^ 53\<close> the transfer is submitted
  with that nonce, and the nonce is \<open>2 ^ 53\<close> afterwards as before.
\<close>

theorem sendEther_counterexample:
  "utils_getAddress sample_ethers friend = Inr friend
   \<and> transactionNonce sample_registered = Some 7
   \<and> fst (sendEther sample_ethers friend ''abc'' ''20'' None sample_registered)
       = Inl (Error ''invalid decimal value'')
   \<and> calls_of (sendEther sample_ethers friend ''abc'' ''20'' None sample_registered) = []
   \<and> transactionNonce (state_of (sendEther sample_ethers friend ''abc'' ''20'' None sample_registered))
       = Some 8
   \<and> fst (sendEther sample_ethers friend ''1'' ''fast'' None sample_registered)
       = Inl (Error ''invalid decimal value'')
   \<and> calls_of (sendEther sample_ethers friend ''1'' ''fast'' None sample_registered) = []
   \<and> isLocked sample_locked
   \<and> sendEther sample_ethers friend ''1'' ''20'' None sample_locked
       = (Inl (TypeError ''Cannot read properties of null''), sample_locked, [])
   \<and> transactionNonce sample_counted = Some 9007199254740992
   \<and> calls_of (sendEther sample_ethers friend ''1'' ''20'' None sample_counted)
       = [SendTransaction
            \<lparr>address = ''0xk1'', privateKey = ''k1'', mnemonic = [],
             signer_provider = Some (Provider ''homestead'')\<rparr>
            \<lparr>tx_nonce = 9007199254740992, tx_to = friend, tx_value = 1000000000000000000,
             tx_gasPrice = ''0x04a817c800''\<rparr>]
   \<and> transactionNonce (state_of (sendEther sample_ethers friend ''1'' ''20'' None sample_counted))
       = Some 9007199254740992"
  by (simp add: sample_counted_eq sample_registered_eq sample_locked_eq sendEther_def
        state_of_def calls_of_def nonce_increment_def nonce_value_def number_increment_def
        null_error_def sample_ethers_def friend_def Let_def)

section \<open>Calls on a locked session\<close>

text \<open>
  On a locked session (lock flag set, signing handle absent) eight of the nine query
  and send methods are rejected and change nothing: seven by their own check of the
  lock flag, \<^verbatim>\<open>sendEther\<close> by the address check or by the read of the absent handle,
  before the nonce is touched. \<^verbatim>\<open>getEtherHistory\<close> is rejected only when its address
  argument is left out.
\<close>

lemma locked_methods_rejected:
  assumes "isLocked s" and "wallet s = None"
  shows "getAddress s = (Inl (Error ''Wallet is locked!''), s, [])"
    and "getPrivateKey s = (Inl (Error ''Wallet is locked!''), s, [])"
    and "getMnemonics s = (Inl (Error ''Wallet is locked!''), s, [])"
    and "getEtherBalance env s = (Inl (Error ''Wallet is locked!''), s, [])"
    and "getTokenBalance env a s = (Inl (Error ''Wallet is locked!''), s, [])"
    and "getTokenHistory env a s = (Inl (Error ''Wallet is locked!''), s, [])"
    and "sendToken env a to amount gas speed s = (Inl (Error ''Wallet is locked!''), s, [])"
    and "\<exists>e. sendEther env to amount gas speed s = (Inl e, s, [])"
    and "getEtherHistory env n None b e s = (Inl null_error, s, [])"
  using assms
  by (simp_all add: getAddress_def getPrivateKey_def getMnemonics_def getEtherBalance_def
        getTokenBalance_def getTokenHistory_def sendToken_def sendEther_def
        getEtherHistory_def locked_error_def Let_def split: sum.splits)

text \<open>
  Claim C1 at the call where the code departs from it: on the locked sample session,
  \<^verbatim>\<open>getEtherHistory('homestead', friend)\<close> is not rejected. It queries the block
  explorer and returns the entries.
\<close>

theorem getEtherHistory_locked_not_rejected:
  "isLocked sample_locked \<and> wallet sample_locked = None
   \<and> getEtherHistory sample_ethers (Some ''homestead'') (Some friend) None None sample_locked
     = (Inr [\<lparr>eh_transactionHash = ''0xe1'', eh_status = ''SELF'', eh_from = friend,
               eh_to = Some friend, eh_amount = ''2.0'', eh_timestamp = 1600000000\<rparr>],
        sample_locked,
        [GetHistory ''homestead'' friend (BlockNumber 0) (BlockTag ''latest'')])"
  by (simp add: sample_locked_eq getEtherHistory_def ether_status_def sample_ethers_def
        sample_history_def nat_toString.simps)

section \<open>The gas price request\<close>

text \<open>
  Claim C9, as the code has it. Each call of \<^verbatim>\<open>getGasPrice\<close> hands exactly one
  request to the HTTP transport: a GET of the fixed oracle address with a timeout of
  10000 milliseconds. It returns what the transport's promise settles with, unmodified:
  the transport's rejection when the request fails or times out, and otherwise the
  transport's response object (the parsed body is its \<^verbatim>\<open>data\<close> field). Nothing is
  retried and nothing is kept between calls.
\<close>

theorem getGasPrice_single_request:
  "getGasPrice axios = (axios gasApi, [gasApi])
   \<and> length (snd (getGasPrice axios)) = 1
   \<and> http_method gasApi = ''get''
   \<and> http_url gasApi = ''https://ethgasstation.info/json/ethgasAPI.json''
   \<and> http_timeout gasApi = 10000"
  by (simp add: getGasPrice_def gasApi_def)

text \<open>
  Claim C9, as stated, fails: when the transport resolves with a response whose body
  is \<open>sample_body\<close>, the call returns the response object, not the body.
\<close>

theorem getGasPrice_counterexample:
  "sample_axios gasApi = Inr sample_response
   \<and> sample_response = JObject [(''data'', sample_body), (''status'', JNumber 200),
                                 (''statusText'', JString ''OK'')]
   \<and> fst (getGasPrice sample_axios) = Inr sample_response
   \<and> fst (getGasPrice sample_axios) \<noteq> Inr sample_body"
  by (simp add: getGasPrice_def sample_axios_def sample_response_def sample_body_def)

end
